theory Spec2Isabelle
  imports Main "HOL-Library.Sublist" "HOL-Library.Log_Nat"
begin

section \<open>Python values and exceptions used by the scraper\<close>

text \<open>
  The module \<^verbatim>\<open>fetch/__init__.py\<close> works on text taken out of HTML tables. A Python
  \<^verbatim>\<open>str\<close> is modelled as a \<^typ>\<open>string\<close>; one \<^typ>\<open>char\<close> stands for one code point below
  256 (Latin-1), which covers every marker the code looks for. Exceptions are values:
  a function that can raise returns \<open>py_error + 'a\<close>, with \<open>Inl\<close> for the exception.
\<close>

datatype py_error = IndexError | ValueError | TypeError | KeyError | OverflowError

text \<open>Sequencing of two computations that may raise: the first exception wins.\<close>

definition bind_e :: "py_error + 'a \<Rightarrow> ('a \<Rightarrow> py_error + 'b) \<Rightarrow> py_error + 'b" where
  "bind_e m f = (case m of Inl e \<Rightarrow> Inl e | Inr x \<Rightarrow> f x)"

text \<open>\<^verbatim>\<open>xs[i]\<close> for a literal index \<open>i \<ge> 0\<close>: IndexError out of range.\<close>

definition idx :: "'a list \<Rightarrow> nat \<Rightarrow> py_error + 'a" where
  "idx xs i = (if i < length xs then Inr (xs ! i) else Inl IndexError)"

text \<open>\<^verbatim>\<open>xs[-1]\<close>: the last element, IndexError on the empty list.\<close>

definition idx_last :: "'a list \<Rightarrow> py_error + 'a" where
  "idx_last xs = (if xs = [] then Inl IndexError else Inr (last xs))"

text \<open>
  \<^verbatim>\<open>a in b\<close> on two strings is the contiguous-substring test, \<^const>\<open>sublist\<close>.
  \<^verbatim>\<open>s.lower()\<close> maps the upper-case letters of ASCII (65..90) and of Latin-1
  (192..222 without the multiplication sign 215) to the code point 32 higher and leaves
  every other code point below 256 alone.
\<close>

definition lower_char :: "char \<Rightarrow> char" where
  "lower_char c =
     (let n = (of_char c :: nat)
      in if (65 \<le> n \<and> n \<le> 90) \<or> (192 \<le> n \<and> n \<le> 222 \<and> n \<noteq> 215)
         then char_of (n + 32) else c)"

definition lower :: "string \<Rightarrow> string" where
  "lower s = map lower_char s"

section \<open>The meet table: \<^verbatim>\<open>fetch_meet_results\<close>\<close>

text \<open>
  The function returns a list of events, each the three-element list
  \<^verbatim>\<open>[EVENT NAME, home, away]\<close>; \<open>home\<close> and \<open>away\<close> are lists of three-element lists
  which the docstring gives as \<^verbatim>\<open>[TIME, SWIMMER NAME, exhib]\<close>. The fixed-length,
  mixed-type lists are tuples here, their positions named after the docstring.
\<close>

type_synonym entry = "string \<times> string \<times> bool"
type_synonym event = "string \<times> entry list \<times> entry list"

definition entry_time :: "entry \<Rightarrow> string" where
  "entry_time t = fst t"

definition entry_swimmer :: "entry \<Rightarrow> string" where
  "entry_swimmer t = fst (snd t)"

definition entry_exhib :: "entry \<Rightarrow> bool" where
  "entry_exhib t = snd (snd t)"

definition event_name :: "event \<Rightarrow> string" where
  "event_name ev = fst ev"

definition event_home :: "event \<Rightarrow> entry list" where
  "event_home ev = fst (snd ev)"

definition event_away :: "event \<Rightarrow> entry list" where
  "event_away ev = snd (snd ev)"

text \<open>
  \<^verbatim>\<open>current_parse\<close> only ever holds one of the three string literals
  \<^verbatim>\<open>"event"\<close>, \<^verbatim>\<open>"times"\<close>, \<^verbatim>\<open>"exhib"\<close>.
\<close>

datatype parse_mode = P_event | P_times | P_exhib

text \<open>
  Lines 71 and 74: the two \<^verbatim>\<open>append\<close> calls on \<^verbatim>\<open>events[-1]\<close>. Python looks up
  \<^verbatim>\<open>events[-1][1].append\<close> before it evaluates the argument, and reads the cells in
  the order written. Every failure here is an IndexError, and an exception leaves no
  result, so the half-done update of line 71 is never observed.
\<close>

definition add_times :: "event list \<Rightarrow> string list \<Rightarrow> py_error + event list" where
  "add_times events row =
     bind_e (idx_last events) (\<lambda>ev.
     bind_e (idx row 1) (\<lambda>r1.
     bind_e (idx row 0) (\<lambda>r0.
     bind_e (idx row 2) (\<lambda>r2.
     bind_e (idx row 7) (\<lambda>r7.
     bind_e (idx row 6) (\<lambda>r6.
     bind_e (idx row 5) (\<lambda>r5.
       Inr (butlast events @
            [(event_name ev,
              event_home ev @ [(r1, r0, sublist ''ex'' (lower r2))],
              event_away ev @ [(r7, r6, sublist ''ex'' (lower r5))])]))))))))"

text \<open>
  Line 66, \<^verbatim>\<open>row[0] == "" and row[7] == ""\<close>: \<^verbatim>\<open>and\<close> reads \<^verbatim>\<open>row[7]\<close> only when
  the first comparison holds.
\<close>

definition is_sentinel :: "string list \<Rightarrow> py_error + bool" where
  "is_sentinel row =
     bind_e (idx row 0) (\<lambda>r0.
       if r0 = [] then bind_e (idx row 7) (\<lambda>r7. Inr (r7 = [])) else Inr False)"

text \<open>The body of the loop over \<^verbatim>\<open>results\<close> (lines 46 to 82), without the debug prints.\<close>

definition parse_row ::
  "parse_mode \<times> event list \<Rightarrow> string list \<Rightarrow> py_error + (parse_mode \<times> event list)" where
  "parse_row s row =
     (case s of (current_parse, events) \<Rightarrow>
      bind_e (idx row 0) (\<lambda>r0.
        if sublist ''Exhibition'' r0 then Inr (P_exhib, events)
        else if length row = 1 then Inr (P_times, events @ [(r0, [], [])])
        else if current_parse = P_event then Inr (P_times, events @ [(r0, [], [])])
        else if current_parse = P_times then
          bind_e (is_sentinel row) (\<lambda>b.
            if b then Inr (P_event, events)
            else bind_e (add_times events row) (\<lambda>events'. Inr (P_times, events')))
        else if current_parse = P_exhib then
          (if length row = 1 then Inr (P_times, events @ [(r0, [], [])])
           else Inr (current_parse, events))
        else Inr (current_parse, events)))"

text \<open>The loop: rows are consumed in order, and the first exception ends the run.\<close>

fun parse_rows ::
  "parse_mode \<times> event list \<Rightarrow> string list list \<Rightarrow> py_error + (parse_mode \<times> event list)" where
  "parse_rows s [] = Inr s"
| "parse_rows s (row # rows) = bind_e (parse_row s row) (\<lambda>s'. parse_rows s' rows)"

text \<open>
  \<^verbatim>\<open>fetch_meet_results\<close> from line 33 on, as a function of the cell texts \<^verbatim>\<open>results\<close>
  that lines 22 to 31 read from the page: it starts in mode \<^verbatim>\<open>"event"\<close> with no
  events and returns the events.
\<close>

definition fetch_meet_results :: "string list list \<Rightarrow> py_error + event list" where
  "fetch_meet_results results =
     bind_e (parse_rows (P_event, []) results) (\<lambda>s. Inr (snd s))"

section \<open>Python numbers: \<^verbatim>\<open>float\<close> values, \<^verbatim>\<open>float(str)\<close> and \<^verbatim>\<open>int(str)\<close>\<close>

text \<open>
  \<^verbatim>\<open>time_to_float\<close> decides by whether \<^verbatim>\<open>float()\<close> and \<^verbatim>\<open>int()\<close> accept a text, and it
  returns IEEE binary64 values. A finite value is \<open>Finite s m e\<close>, the number
  \<open>(-1)\<^sup>s \<sqdot> m \<sqdot> 2\<^sup>e\<close> with \<open>0 \<le> m < 2\<^sup>5\<^sup>3\<close> and \<open>-1074 \<le> e \<le> 971\<close>, and \<open>m \<ge> 2\<^sup>5\<^sup>2\<close> unless
  \<open>e = -1074\<close> (zero and the subnormal numbers), so that equal numbers of equal sign are
  equal terms.
\<close>

datatype pyfloat = Finite bool int int | Infinite bool | NaN

text \<open>The integer nearest to \<open>n / d\<close>, a tie going to the even one (\<open>0 \<le> n\<close>, \<open>0 < d\<close>).\<close>

definition round_half_even :: "int \<Rightarrow> int \<Rightarrow> int" where
  "round_half_even n d =
     (let q = n div d; r = n mod d
      in if 2 * r < d then q else if d < 2 * r then q + 1 else if even q then q else q + 1)"

text \<open>The \<open>k\<close> with \<open>2\<^sup>k \<le> a / b < 2\<^sup>k\<^sup>+\<^sup>1\<close>, for \<open>0 < a\<close> and \<open>0 < b\<close>.\<close>

definition binade :: "int \<Rightarrow> int \<Rightarrow> int" where
  "binade a b =
     (let k = bitlen a - bitlen b
      in if (if 0 \<le> k then b * 2 ^ nat k \<le> a else b \<le> a * 2 ^ nat (- k)) then k else k - 1)"

text \<open>
  The binary64 value nearest to \<open>a / b\<close> (\<open>0 \<le> a\<close>, \<open>0 < b\<close>) with sign \<open>neg\<close>, ties to
  even: the unit in the last place is \<open>2\<^sup>e\<close>; a result of \<open>2\<^sup>1\<^sup>0\<^sup>2\<^sup>4\<close> or more is an infinity.
\<close>

definition round_double :: "bool \<Rightarrow> int \<Rightarrow> int \<Rightarrow> pyfloat" where
  "round_double neg a b =
     (if a = 0 then Finite neg 0 (- 1074)
      else let e = max (binade a b) (- 1022) - 52;
               m = (if e < 0 then round_half_even (a * 2 ^ nat (- e)) b
                    else round_half_even a (b * 2 ^ nat e))
           in if m = 2 ^ 53 then (if 970 < e then Infinite neg else Finite neg (2 ^ 52) (e + 1))
              else if 971 < e then Infinite neg
              else Finite neg m e)"

text \<open>
  An \<^verbatim>\<open>int\<close> operand of \<^verbatim>\<open>+\<close> with a \<^verbatim>\<open>float\<close> is converted to \<^verbatim>\<open>float\<close>, rounded to
  nearest; Python raises OverflowError when the integer is too large for a finite value.
\<close>

definition float_of_int :: "int \<Rightarrow> py_error + pyfloat" where
  "float_of_int n =
     (case round_double (n < 0) \<bar>n\<bar> 1 of
        Infinite s \<Rightarrow> Inl OverflowError
      | x \<Rightarrow> Inr x)"

definition with_sign :: "bool \<Rightarrow> int \<Rightarrow> int" where
  "with_sign neg m = (if neg then - m else m)"

text \<open>
  \<^verbatim>\<open>x + y\<close> on two \<^verbatim>\<open>float\<close>s: the exact sum, rounded; it never raises. An exact sum
  of zero is \<open>-0.0\<close> only when both operands are negative (both are then zeros).
\<close>

fun float_add :: "pyfloat \<Rightarrow> pyfloat \<Rightarrow> pyfloat" where
  "float_add NaN y = NaN"
| "float_add x NaN = NaN"
| "float_add (Infinite s) (Infinite t) = (if s = t then Infinite s else NaN)"
| "float_add (Infinite s) (Finite t n f) = Infinite s"
| "float_add (Finite s m e) (Infinite t) = Infinite t"
| "float_add (Finite s m e) (Finite t n f) =
     (let g = min e f;
          r = with_sign s (m * 2 ^ nat (e - g)) + with_sign t (n * 2 ^ nat (f - g))
      in if r = 0 then Finite (s \<and> t) 0 (- 1074)
         else if g < 0 then round_double (r < 0) \<bar>r\<bar> (2 ^ nat (- g))
         else round_double (r < 0) (\<bar>r\<bar> * 2 ^ nat g) 1)"

text \<open>The \<^verbatim>\<open>float\<close> that the decimal \<open>d \<sqdot> 10\<^sup>k\<close> denotes (\<open>0 \<le> d\<close>), with sign \<open>neg\<close>.\<close>

definition float_of_decimal :: "bool \<Rightarrow> int \<Rightarrow> int \<Rightarrow> pyfloat" where
  "float_of_decimal neg d k =
     (if 0 \<le> k then round_double neg (d * 10 ^ nat k) 1 else round_double neg d (10 ^ nat (- k)))"

text \<open>
  Both \<^verbatim>\<open>float(str)\<close> and \<^verbatim>\<open>int(str)\<close> first turn every Unicode space into a blank, and
  then skip the C white space at both ends: below 256 these are the code points 9 to 13
  and 32, and 133 and 160. The decimal digits below 256 are \<^verbatim>\<open>0\<close> to \<^verbatim>\<open>9\<close>.
\<close>

definition is_space :: "char \<Rightarrow> bool" where
  "is_space c = (of_char c \<in> {9, 10, 11, 12, 13, 32, 133, 160 :: nat})"

definition is_digit :: "char \<Rightarrow> bool" where
  "is_digit c = (48 \<le> (of_char c :: nat) \<and> (of_char c :: nat) \<le> 57)"

definition strip :: "string \<Rightarrow> string" where
  "strip s = rev (dropWhile is_space (rev (dropWhile is_space s)))"

definition digits_val :: "string \<Rightarrow> int" where
  "digits_val ds = foldl (\<lambda>a c. 10 * a + (of_char c - 48)) 0 ds"

text \<open>An optional sign: whether it is \<^verbatim>\<open>-\<close>, and the text after it.\<close>

definition take_sign :: "string \<Rightarrow> bool \<times> string" where
  "take_sign s =
     (case s of
        [] \<Rightarrow> (False, [])
      | c # cs \<Rightarrow> if c = CHR ''-'' then (True, cs) else if c = CHR ''+'' then (False, cs)
                  else (False, s))"

text \<open>
  \<^verbatim>\<open>int(s)\<close> in base 10: white space, an optional sign, digits with single underscores
  between them, white space; anything else is a ValueError.
\<close>

definition py_int :: "string \<Rightarrow> py_error + int" where
  "py_int s =
     (case take_sign (dropWhile is_space s) of (neg, u) \<Rightarrow>
        let body = takeWhile (\<lambda>c. is_digit c \<or> c = CHR ''_'') u;
            rest = dropWhile (\<lambda>c. is_digit c \<or> c = CHR ''_'') u
        in if body = [] \<or> hd body = CHR ''_'' \<or> last body = CHR ''_'' \<or> sublist ''__'' body
              \<or> dropWhile is_space rest \<noteq> []
           then Inl ValueError
           else Inr (if neg then - digits_val (filter is_digit body)
                     else digits_val (filter is_digit body)))"

text \<open>
  \<^verbatim>\<open>float(s)\<close>. A text with an underscore is accepted only if every underscore stands
  between two digits, and is then read without them. The rest is stripped and read as a
  decimal (sign, digits with an optional point and at least one digit, optional
  exponent) or else as \<^verbatim>\<open>inf\<close>, \<^verbatim>\<open>infinity\<close> or \<^verbatim>\<open>nan\<close> in any letter case after an
  optional sign; anything else is a ValueError. A decimal out of range is an infinity or
  a zero, not an error.
\<close>

fun underscores_ok :: "char \<Rightarrow> string \<Rightarrow> bool" where
  "underscores_ok prev [] = (prev \<noteq> CHR ''_'')"
| "underscores_ok prev (c # cs) =
     ((if c = CHR ''_'' then is_digit prev else prev = CHR ''_'' \<longrightarrow> is_digit c)
      \<and> underscores_ok c cs)"

definition parse_exponent :: "string \<Rightarrow> int option" where
  "parse_exponent r =
     (case r of
        [] \<Rightarrow> Some 0
      | c # cs \<Rightarrow>
          if c = CHR ''e'' \<or> c = CHR ''E'' then
            (case take_sign cs of (neg, w) \<Rightarrow>
               if w \<noteq> [] \<and> list_all is_digit w
               then Some (if neg then - digits_val w else digits_val w)
               else None)
          else None)"

definition parse_decimal :: "string \<Rightarrow> pyfloat option" where
  "parse_decimal t =
     (case take_sign t of (neg, u) \<Rightarrow>
        let ip = takeWhile is_digit u;
            r1 = dropWhile is_digit u;
            dot = (r1 \<noteq> [] \<and> hd r1 = CHR ''.'');
            fp = (if dot then takeWhile is_digit (tl r1) else []);
            r2 = (if dot then dropWhile is_digit (tl r1) else r1)
        in if ip = [] \<and> fp = [] then None
           else (case parse_exponent r2 of
                   None \<Rightarrow> None
                 | Some e \<Rightarrow>
                     Some (float_of_decimal neg (digits_val (ip @ fp)) (e - int (length fp)))))"

definition parse_inf_or_nan :: "string \<Rightarrow> pyfloat option" where
  "parse_inf_or_nan t =
     (case take_sign t of (neg, u) \<Rightarrow>
        if lower u = ''inf'' \<or> lower u = ''infinity'' then Some (Infinite neg)
        else if lower u = ''nan'' then Some NaN
        else None)"

definition float_from_string_inner :: "string \<Rightarrow> py_error + pyfloat" where
  "float_from_string_inner s =
     (let t = strip s
      in case parse_decimal t of
           Some x \<Rightarrow> Inr x
         | None \<Rightarrow> (case parse_inf_or_nan t of Some x \<Rightarrow> Inr x | None \<Rightarrow> Inl ValueError))"

definition py_float :: "string \<Rightarrow> py_error + pyfloat" where
  "py_float s =
     (if CHR ''_'' \<in> set s
      then (if underscores_ok (CHR 0x00) s
            then float_from_string_inner (filter (\<lambda>c. c \<noteq> CHR ''_'') s)
            else Inl ValueError)
      else float_from_string_inner s)"

text \<open>\<^verbatim>\<open>s.split(sep)\<close> for a one-character separator: at least one field.\<close>

fun split_on :: "char \<Rightarrow> string \<Rightarrow> string list" where
  "split_on sep [] = [[]]"
| "split_on sep (c # cs) =
     (if c = sep then [] # split_on sep cs
      else (case split_on sep cs of [] \<Rightarrow> [[c]] | w # ws \<Rightarrow> (c # w) # ws))"

section \<open>The time parser: \<^verbatim>\<open>time_to_float\<close>\<close>

text \<open>
  The argument is a \<^verbatim>\<open>str\<close> or \<^verbatim>\<open>None\<close>. \<^verbatim>\<open>float(None)\<close> raises TypeError, which the
  handler \<^verbatim>\<open>except ValueError\<close> of line 101 does not catch. In the handler, line 104
  evaluates \<^verbatim>\<open>int(time.split(":")[0]) * 60\<close>, then \<^verbatim>\<open>float(time.split(":")[1])\<close>, then
  the sum of an \<^verbatim>\<open>int\<close> and a \<^verbatim>\<open>float\<close>. The result \<open>Inr None\<close> is Python's \<^verbatim>\<open>None\<close>.
\<close>

definition time_to_float :: "string option \<Rightarrow> py_error + pyfloat option" where
  "time_to_float time =
     (case (case time of None \<Rightarrow> Inl TypeError | Some t \<Rightarrow> py_float t) of
        Inr x \<Rightarrow> Inr (Some x)
      | Inl e \<Rightarrow>
          if e \<noteq> ValueError then Inl e
          else (case time of
                  None \<Rightarrow> Inr None
                | Some t \<Rightarrow>
                    if sublist ''dq'' (lower t) then Inr None
                    else bind_e (idx (split_on CHR '':'' t) 0) (\<lambda>a.
                         bind_e (py_int a) (\<lambda>m.
                         bind_e (idx (split_on CHR '':'' t) 1) (\<lambda>b.
                         bind_e (py_float b) (\<lambda>s.
                         bind_e (float_of_int (m * 60)) (\<lambda>x.
                           Inr (Some (float_add x s)))))))))"

section \<open>The swimmer profile: \<^verbatim>\<open>fetch_swimmer\<close>\<close>











section \<open>Vocabulary of the properties of the meet table\<close>

text \<open>The first cell of the row exists and contains the marker of line 48.\<close>

definition has_marker :: "string list \<Rightarrow> bool" where
  "has_marker row = (case row of [] \<Rightarrow> False | r0 # _ \<Rightarrow> sublist ''Exhibition'' r0)"

text \<open>A single-cell header row: exactly one cell, and no marker in it.\<close>

definition is_header :: "string list \<Rightarrow> bool" where
  "is_header row = (length row = 1 \<and> \<not> has_marker row)"

text \<open>
  The mode after a row that the loop body accepts, read off the assignments to
  \<^verbatim>\<open>current_parse\<close> alone; \<open>parse_row_mode\<close> below shows that the loop body agrees.
\<close>

definition next_mode :: "parse_mode \<Rightarrow> string list \<Rightarrow> parse_mode" where
  "next_mode m row =
     (if has_marker row then P_exhib
      else if length row = 1 then P_times
      else if m = P_event then P_times
      else if m = P_times then
        (if idx row 0 = Inr [] \<and> idx row 7 = Inr [] then P_event else P_times)
      else P_exhib)"

text \<open>
  The number of rows that are met in mode \<^verbatim>\<open>"event"\<close>, have no marker and do not have
  exactly one cell: the rows that line 60 turns into an event.
\<close>

fun wide_in_event :: "parse_mode \<Rightarrow> string list list \<Rightarrow> nat" where
  "wide_in_event m [] = 0"
| "wide_in_event m (row # rows) =
     (if m = P_event \<and> length row \<noteq> 1 \<and> \<not> has_marker row then 1 else 0)
       + wide_in_event (next_mode m row) rows"

text \<open>Every event has as many home entries as away entries.\<close>

definition balanced :: "event list \<Rightarrow> bool" where
  "balanced events = (\<forall>ev \<in> set events. length (event_home ev) = length (event_away ev))"

section \<open>Vocabulary of the properties of the time parser\<close>

text \<open>
  The minutes:seconds form as the spec words it: the text has a colon, the part left of
  the first colon is accepted by \<^verbatim>\<open>int()\<close> and everything right of the first colon is
  accepted by \<^verbatim>\<open>float()\<close>.
\<close>

definition minutes_seconds_form :: "string \<Rightarrow> bool" where
  "minutes_seconds_form t =
     (let a = takeWhile (\<lambda>c. c \<noteq> CHR '':'') t; r = dropWhile (\<lambda>c. c \<noteq> CHR '':'') t
      in r \<noteq> [] \<and> \<not> isl (py_int a) \<and> \<not> isl (py_float (tl r)))"

text \<open>
  What line 104 looks at: the text has at least two colon-separated fields, the first
  is accepted by \<^verbatim>\<open>int()\<close> and the second by \<^verbatim>\<open>float()\<close>; further fields are not read.
\<close>

definition minutes_seconds_fields :: "string \<Rightarrow> bool" where
  "minutes_seconds_fields t =
     (case split_on CHR '':'' t of
        a # b # _ \<Rightarrow> \<not> isl (py_int a) \<and> \<not> isl (py_float b)
      | _ \<Rightarrow> False)"


section \<open>Properties of the meet table parser\<close>

subsection \<open>Exceptions\<close>

lemma bind_e_Inr: "bind_e m f = Inr y \<longleftrightarrow> (\<exists>x. m = Inr x \<and> f x = Inr y)"
  by (cases m) (simp_all add: bind_e_def)

lemma bind_e_Inl: "bind_e m f = Inl e \<longleftrightarrow> m = Inl e \<or> (\<exists>x. m = Inr x \<and> f x = Inl e)"
  by (cases m) (simp_all add: bind_e_def)

lemma idx_Inl: "idx xs i = Inl e \<Longrightarrow> e = IndexError"
  by (simp add: idx_def split: if_splits)

lemma add_times_Inl: "add_times events row = Inl e \<Longrightarrow> e = IndexError"
  by (auto simp: add_times_def bind_e_Inl idx_last_def dest: idx_Inl split: if_splits)

lemma is_sentinel_Inl: "is_sentinel row = Inl e \<Longrightarrow> e = IndexError"
  by (auto simp: is_sentinel_def bind_e_Inl dest: idx_Inl split: if_splits)

lemma parse_row_Inl: "parse_row s row = Inl e \<Longrightarrow> e = IndexError"
  by (cases s)
     (auto simp: parse_row_def bind_e_Inl dest: idx_Inl is_sentinel_Inl add_times_Inl
           split: if_splits)

lemma parse_rows_Inl: "parse_rows s rows = Inl e \<Longrightarrow> e = IndexError"
  by (induction rows arbitrary: s) (auto simp: bind_e_Inl dest: parse_row_Inl)

subsection \<open>A data row\<close>

text \<open>
  A row that \<open>add_times\<close> accepts has at least eight cells, finds a last event, and
  gives that event one more home entry and one more away entry; nothing else changes.
\<close>

lemma add_times_Inr:
  assumes "add_times events row = Inr events'"
  shows "events \<noteq> [] \<and> 8 \<le> length row \<and>
         events' = butlast events @
           [(event_name (last events),
             event_home (last events) @ [(row ! 1, row ! 0, sublist ''ex'' (lower (row ! 2)))],
             event_away (last events) @ [(row ! 7, row ! 6, sublist ''ex'' (lower (row ! 5)))])]"
  using assms
  by (auto simp: add_times_def bind_e_Inr idx_def idx_last_def split: if_splits)

lemma add_times_balanced:
  assumes "add_times events row = Inr events'" "balanced events"
  shows "balanced events'"
proof -
  from add_times_Inr[OF assms(1)] obtain h a where
    ne: "events \<noteq> []" and
    ev: "events' = butlast events @
           [(event_name (last events), event_home (last events) @ [h],
             event_away (last events) @ [a])]"
    by blast
  have "last events \<in> set events" using ne by simp
  moreover have "set (butlast events) \<subseteq> set events" by (auto dest: in_set_butlastD)
  ultimately show ?thesis using assms(2) unfolding ev balanced_def
    by (auto simp: event_home_def event_away_def)
qed

lemma balanced_new_event: "balanced (events @ [(n, [], [])]) = balanced events"
  by (auto simp: balanced_def event_home_def event_away_def)

lemma parse_row_balanced:
  assumes "parse_row (m, events) row = Inr (m', events')" "balanced events"
  shows "balanced events'"
  using assms
  by (auto simp: parse_row_def bind_e_Inr balanced_new_event
           dest: add_times_balanced split: if_splits)

lemma parse_rows_balanced:
  "parse_rows s rows = Inr s' \<Longrightarrow> balanced (snd s) \<Longrightarrow> balanced (snd s')"
proof (induction rows arbitrary: s)
  case Nil
  then show ?case by simp
next
  case (Cons row rows)
  from Cons.prems(1) obtain s1 where
    1: "parse_row s row = Inr s1" and 2: "parse_rows s1 rows = Inr s'"
    by (auto simp: bind_e_Inr)
  have "balanced (snd s1)"
    using 1 Cons.prems(2) parse_row_balanced[of "fst s" "snd s" row "fst s1" "snd s1"]
    by simp
  then show ?case using Cons.IH[OF 2] by simp
qed

subsection \<open>Counting events\<close>

lemma parse_row_mode:
  "parse_row (m, events) row = Inr (m', events') \<Longrightarrow> m' = next_mode m row"
  by (cases row; cases m)
     (auto simp: parse_row_def next_mode_def has_marker_def bind_e_Inr is_sentinel_def idx_def
           split: if_splits)

lemma parse_row_count:
  "parse_row (m, events) row = Inr (m', events') \<Longrightarrow>
     length events' = length events + (if is_header row then 1 else 0)
        + (if m = P_event \<and> length row \<noteq> 1 \<and> \<not> has_marker row then 1 else 0)"
  by (cases row; cases m)
     (auto simp: parse_row_def is_header_def has_marker_def bind_e_Inr idx_def
           split: if_splits dest!: add_times_Inr)

lemma parse_rows_count:
  "parse_rows (m, events) rows = Inr (m', events') \<Longrightarrow>
     length events' = length events + length (filter is_header rows) + wide_in_event m rows"
proof (induction rows arbitrary: m events)
  case Nil
  then show ?case by simp
next
  case (Cons row rows)
  from Cons.prems obtain m1 e1 where
    1: "parse_row (m, events) row = Inr (m1, e1)" and
    2: "parse_rows (m1, e1) rows = Inr (m', events')"
    by (auto simp: bind_e_Inr)
  show ?case using Cons.IH[OF 2] parse_row_count[OF 1] parse_row_mode[OF 1] by simp
qed

lemma parse_rows_empty_row: "[] \<in> set rows \<Longrightarrow> parse_rows s rows = Inl IndexError"
proof (induction rows arbitrary: s)
  case Nil
  then show ?case by simp
next
  case (Cons row rows)
  show ?case
  proof (cases "parse_row s row")
    case (Inl e)
    then show ?thesis using parse_row_Inl[OF Inl] by (simp add: bind_e_def)
  next
    case (Inr s1)
    then have "row \<noteq> []" by (cases s) (auto simp: parse_row_def bind_e_Inr idx_def)
    then show ?thesis using Cons Inr by (simp add: bind_e_def)
  qed
qed

lemmas meet_defs =
  fetch_meet_results_def parse_row_def bind_e_def idx_def idx_last_def is_sentinel_def
  add_times_def lower_def lower_char_def event_name_def event_home_def event_away_def
  sublist_code

subsection \<open>The claims about the meet table\<close>

text \<open>
  C1, as the claim states it: on the three rows of the example the parser would return
  one event \<^verbatim>\<open>"100 Free"\<close> whose only home entry has time \<^verbatim>\<open>"58.21"\<close> and swimmer
  \<^verbatim>\<open>"A"\<close>, and whose only away entry has time \<^verbatim>\<open>"1:01.30"\<close> and swimmer \<^verbatim>\<open>"B"\<close>, and
  finish in mode \<^verbatim>\<open>"event"\<close>. With the entry format of the docstring,
  \<^verbatim>\<open>[TIME, SWIMMER NAME, exhib]\<close>, that result is not the one the code computes: line 71
  builds the home entry as \<^verbatim>\<open>[row[1], row[0], ...]\<close>, line 74 the away entry as
  \<^verbatim>\<open>[row[7], row[6], ...]\<close>.
\<close>

theorem C1_home_entry_counterexample:
  "parse_rows (P_event, [])
     [[''100 Free''],
      [''58.21'', ''A'', '''', '' '', '''', '''', ''B'', ''1:01.30'', ''''],
      ['''', '''', '''', '''', '''', '''', '''', '''']]
   \<noteq> Inr (P_event,
        [(''100 Free'', [(''58.21'', ''A'', False)], [(''1:01.30'', ''B'', False)])])"
  by (simp add: meet_defs)

text \<open>
  C1, amended: on the three rows of the example the parser returns exactly one event,
  named \<^verbatim>\<open>"100 Free"\<close>; its only home entry holds cell 1 and then cell 0 of the data
  row, so its time position is \<^verbatim>\<open>"A"\<close> and its swimmer position \<^verbatim>\<open>"58.21"\<close>; its only
  away entry has time \<^verbatim>\<open>"1:01.30"\<close> and swimmer \<^verbatim>\<open>"B"\<close>; both exhibition flags are
  false, and the parser finishes in mode \<^verbatim>\<open>"event"\<close>.
\<close>

theorem C1_example_rows:
  "parse_rows (P_event, [])
     [[''100 Free''],
      [''58.21'', ''A'', '''', '' '', '''', '''', ''B'', ''1:01.30'', ''''],
      ['''', '''', '''', '''', '''', '''', '''', '''']]
   = Inr (P_event,
        [(''100 Free'', [(''A'', ''58.21'', False)], [(''1:01.30'', ''B'', False)])])
   \<and> entry_time (''A'', ''58.21'', False) = ''A''
   \<and> entry_swimmer (''A'', ''58.21'', False) = ''58.21''
   \<and> entry_time (''1:01.30'', ''B'', False) = ''1:01.30''
   \<and> entry_swimmer (''1:01.30'', ''B'', False) = ''B''"
  by (simp add: meet_defs entry_time_def entry_swimmer_def)

text \<open>
  C2: a row that has a first cell, and the marker \<^verbatim>\<open>"Exhibition"\<close> in it, puts the
  parser in mode \<^verbatim>\<open>"exhib"\<close> and leaves the events as they are, whatever the mode was
  and however many cells the row has.
\<close>

theorem C2_marker_row_wins:
  "idx row 0 = Inr r0 \<Longrightarrow> sublist ''Exhibition'' r0 \<Longrightarrow>
     parse_row (m, events) row = Inr (P_exhib, events)"
  by (simp add: parse_row_def bind_e_def)

theorem C2_marker_row_wins_witness:
  "idx [''Girls Exhibition 50 Free'', ''x''] 0 = Inr ''Girls Exhibition 50 Free''
   \<and> sublist ''Exhibition'' ''Girls Exhibition 50 Free''
   \<and> parse_row (P_times, [(''100 Free'', [], [])]) [''Girls Exhibition 50 Free'', ''x'']
       = Inr (P_exhib, [(''100 Free'', [], [])])"
proof -
  have 1: "idx [''Girls Exhibition 50 Free'', ''x''] 0 = Inr ''Girls Exhibition 50 Free''"
    by (simp add: idx_def)
  have 2: "sublist ''Exhibition'' ''Girls Exhibition 50 Free''"
    by (simp add: sublist_code)
  from C2_marker_row_wins[OF 1 2, of P_times "[(''100 Free'', [], [])]"] 1 2
  show ?thesis by blast
qed

text \<open>
  C3: when the parser completes on a row stream, every event of its result has as many
  home entries as away entries; and the reason: a data row accepted in mode \<^verbatim>\<open>"times"\<close>
  (no marker, not a single cell, not the sentinel) leaves the mode and all events but the
  last as they are, and gives the last event exactly one more home entry, built from
  cells 1, 0 and 2, and exactly one more away entry, built from cells 7, 6 and 5.
\<close>

theorem C3_home_away_same_length:
  "(fetch_meet_results results = Inr events \<and> ev \<in> set events
      \<longrightarrow> length (event_home ev) = length (event_away ev))
   \<and> (parse_row (P_times, evs) row = Inr (m', evs') \<and> \<not> has_marker row \<and> length row \<noteq> 1
       \<and> is_sentinel row = Inr False
      \<longrightarrow> m' = P_times \<and> evs \<noteq> [] \<and>
          evs' = butlast evs @
            [(event_name (last evs),
              event_home (last evs) @ [(row ! 1, row ! 0, sublist ''ex'' (lower (row ! 2)))],
              event_away (last evs) @ [(row ! 7, row ! 6, sublist ''ex'' (lower (row ! 5)))])])"
proof (intro conjI impI)
  assume "fetch_meet_results results = Inr events \<and> ev \<in> set events"
  then show "length (event_home ev) = length (event_away ev)"
    using parse_rows_balanced[of "(P_event, [])" results]
    by (auto simp: fetch_meet_results_def bind_e_Inr balanced_def)
next
  assume a: "parse_row (P_times, evs) row = Inr (m', evs') \<and> \<not> has_marker row \<and> length row \<noteq> 1
       \<and> is_sentinel row = Inr False"
  then have "m' = P_times \<and> add_times evs row = Inr evs'"
    by (cases row) (auto simp: parse_row_def has_marker_def bind_e_Inr idx_def split: if_splits)
  then show "m' = P_times" "evs \<noteq> []"
    "evs' = butlast evs @
            [(event_name (last evs),
              event_home (last evs) @ [(row ! 1, row ! 0, sublist ''ex'' (lower (row ! 2)))],
              event_away (last evs) @ [(row ! 7, row ! 6, sublist ''ex'' (lower (row ! 5)))])]"
    using add_times_Inr[of evs row evs'] by simp_all
qed

theorem C3_home_away_same_length_witness:
  "fetch_meet_results
     [[''100 Free''],
      [''58.21'', ''A'', '''', '' '', '''', '''', ''B'', ''1:01.30'', ''''],
      [''59.02'', ''C'', ''EX'', '' '', '''', '''', ''D'', ''1:02.11'', ''''],
      ['''', '''', '''', '''', '''', '''', '''', '''']]
     = Inr [(''100 Free'', [(''A'', ''58.21'', False), (''C'', ''59.02'', True)],
                           [(''1:01.30'', ''B'', False), (''1:02.11'', ''D'', False)])]
   \<and> length (event_home (''100 Free'', [(''A'', ''58.21'', False), (''C'', ''59.02'', True)],
                           [(''1:01.30'', ''B'', False), (''1:02.11'', ''D'', False)])) = 2
   \<and> length (event_away (''100 Free'', [(''A'', ''58.21'', False), (''C'', ''59.02'', True)],
                           [(''1:01.30'', ''B'', False), (''1:02.11'', ''D'', False)])) = 2
   \<and> parse_row (P_times, [(''50 Free'', [], []),
                          (''100 Free'', [(''A'', ''58.21'', False)], [(''1:01.30'', ''B'', False)])])
        [''59.02'', ''C'', ''EX'', '' '', '''', '''', ''D'', ''1:02.11'', '''']
     = Inr (P_times, [(''50 Free'', [], []),
                      (''100 Free'', [(''A'', ''58.21'', False), (''C'', ''59.02'', True)],
                           [(''1:01.30'', ''B'', False), (''1:02.11'', ''D'', False)])])"
proof -
  let ?e2 = "(''100 Free'', [(''A'', ''58.21'', False), (''C'', ''59.02'', True)],
                           [(''1:01.30'', ''B'', False), (''1:02.11'', ''D'', False)])"
  let ?row = "[''59.02'', ''C'', ''EX'', '' '', '''', '''', ''D'', ''1:02.11'', '''']"
  let ?evs = "[(''50 Free'', [], []),
               (''100 Free'', [(''A'', ''58.21'', False)], [(''1:01.30'', ''B'', False)])]"
  have 1: "fetch_meet_results
     [[''100 Free''],
      [''58.21'', ''A'', '''', '' '', '''', '''', ''B'', ''1:01.30'', ''''],
      ?row,
      ['''', '''', '''', '''', '''', '''', '''', '''']] = Inr [?e2]"
    by code_simp
  have 2: "?e2 \<in> set [?e2]" by simp
  have 3: "parse_row (P_times, ?evs) ?row = Inr (P_times, [(''50 Free'', [], []), ?e2])"
    by code_simp
  have 4: "\<not> has_marker ?row" "length ?row \<noteq> 1" "is_sentinel ?row = Inr False"
    by (simp_all add: has_marker_def is_sentinel_def bind_e_def idx_def sublist_code)
  from C3_home_away_same_length[of "[[''100 Free''],
      [''58.21'', ''A'', '''', '' '', '''', '''', ''B'', ''1:01.30'', ''''],
      ?row,
      ['''', '''', '''', '''', '''', '''', '''', '''']]" "[?e2]" ?e2 ?evs ?row P_times
      "[(''50 Free'', [], []), ?e2]"] 1 2 3 4
  have "length (event_home ?e2) = length (event_away ?e2)" by blast
  moreover have "length (event_home ?e2) = 2" by (simp add: event_home_def)
  ultimately show ?thesis using 1 3 by simp
qed

text \<open>
  C4, as the claim states it: the number of events returned would equal the number of
  single-cell header rows. A first row with two cells and no marker is met in mode
  \<^verbatim>\<open>"event"\<close>, and line 60 makes an event of it: one event, no header row.
\<close>

theorem C4_wide_row_counterexample:
  "fetch_meet_results [[''50 Free'', '''']] = Inr [(''50 Free'', [], [])]
   \<and> length [(''50 Free'', [] :: entry list, [] :: entry list)]
       \<noteq> length (filter is_header [[''50 Free'', '''']])"
  by (simp add: meet_defs is_header_def)

text \<open>
  C4, amended: when the parser completes on a row stream, the number of events it
  returns is the number of single-cell header rows (one cell, no marker) plus the number
  of rows without marker and without exactly one cell that it meets in mode
  \<^verbatim>\<open>"event"\<close>.
\<close>

theorem C4_event_count:
  "fetch_meet_results results = Inr events \<Longrightarrow>
     length events = length (filter is_header results) + wide_in_event P_event results"
  using parse_rows_count[of P_event "[]" results]
  by (auto simp: fetch_meet_results_def bind_e_Inr)

theorem C4_event_count_witness:
  "fetch_meet_results [[''50 Free'', ''''], [''100 Free'']]
     = Inr [(''50 Free'', [], []), (''100 Free'', [], [])]
   \<and> length [(''50 Free'', [] :: entry list, [] :: entry list), (''100 Free'', [], [])]
     = length (filter is_header [[''50 Free'', ''''], [''100 Free'']])
       + wide_in_event P_event [[''50 Free'', ''''], [''100 Free'']]"
proof -
  have 1: "fetch_meet_results [[''50 Free'', ''''], [''100 Free'']]
     = Inr [(''50 Free'', [], []), (''100 Free'', [], [])]"
    by (simp add: meet_defs)
  from C4_event_count[OF 1] 1 show ?thesis by simp
qed

text \<open>
  C10: a row without cells raises IndexError in the loop body, in every mode and with
  any events collected so far; so a row stream that contains such a row raises
  IndexError, and the parser returns nothing for it.
\<close>

theorem C10_empty_row_raises:
  "parse_row (m, events) [] = Inl IndexError
   \<and> ([] \<in> set results \<longrightarrow> fetch_meet_results results = Inl IndexError)"
  by (simp add: parse_row_def fetch_meet_results_def bind_e_def idx_def parse_rows_empty_row)

theorem C10_empty_row_raises_witness:
  "parse_row (P_exhib, [(''100 Free'', [], [])]) [] = Inl IndexError
   \<and> [] \<in> set [[''Exhibition''], [], [''100 Free'']]
   \<and> fetch_meet_results [[''Exhibition''], [], [''100 Free'']] = Inl IndexError"
  using C10_empty_row_raises[of P_exhib "[(''100 Free'', [], [])]"
          "[[''Exhibition''], [], [''100 Free'']]"]
  by simp

section \<open>Properties of the time parser\<close>

subsection \<open>Exceptions of \<^verbatim>\<open>int()\<close> and \<^verbatim>\<open>float()\<close>, and the first branches\<close>

lemma py_int_Inl: "py_int s = Inl e \<Longrightarrow> e = ValueError"
  by (auto simp: py_int_def Let_def split: prod.splits if_splits)

lemma float_from_string_inner_Inl: "float_from_string_inner s = Inl e \<Longrightarrow> e = ValueError"
  by (auto simp: float_from_string_inner_def Let_def split: option.splits)

lemma py_float_Inl: "py_float s = Inl e \<Longrightarrow> e = ValueError"
  by (auto simp: py_float_def dest: float_from_string_inner_Inl split: if_splits)

lemma split_on_not_Nil: "split_on sep s \<noteq> []"
  by (induction s) (auto split: list.splits)

lemma time_to_float_dq:
  "py_float t = Inl ValueError \<Longrightarrow> sublist ''dq'' (lower t) \<Longrightarrow> time_to_float (Some t) = Inr None"
  by (simp add: time_to_float_def)



subsection \<open>The characters of a text that \<^verbatim>\<open>int()\<close> or \<^verbatim>\<open>float()\<close> accepts\<close>
























subsection \<open>The claims about the time parser\<close>




text \<open>
  C6: \<^verbatim>\<open>time_to_float(None)\<close> would return the absence marker without an error, as the
  test \<^verbatim>\<open>time is None\<close> of line 102 intends. The code raises TypeError instead:
  \<^verbatim>\<open>float(None)\<close> raises TypeError, the handler of line 101 catches ValueError only, and
  line 102 is not reached. The other half of the claim holds: \<^verbatim>\<open>"DQ"\<close> gives the absence
  marker (and so does every text with \<^verbatim>\<open>dq\<close> that is no number, \<open>time_to_float_dq\<close>).
\<close>

theorem C6_none_raises_type_error:
  "time_to_float None = Inl TypeError \<and> time_to_float (Some ''DQ'') = Inr None"
  by code_simp

text \<open>
  C7, as the claim states it: a text that is no number, has no \<^verbatim>\<open>dq\<close> and is not of the
  form \<open>M:S\<close> (with everything right of the first colon a decimal float) would raise.
  \<^verbatim>\<open>"1:02:03"\<close> is such a text, since \<^verbatim>\<open>"02:03"\<close> is no float; but line 104 reads only the
  first two fields of \<^verbatim>\<open>split(":")\<close> and returns \<open>1 \<times> 60 + 2 = 62.0\<close>.
\<close>

theorem C7_extra_colon_counterexample:
  "py_float ''1:02:03'' = Inl ValueError
   \<and> \<not> sublist ''dq'' (lower ''1:02:03'')
   \<and> \<not> minutes_seconds_form ''1:02:03''
   \<and> time_to_float (Some ''1:02:03'') = Inr (Some (Finite False 8725724278030336 (- 47)))"
  by code_simp

text \<open>
  C7, amended: a text that \<^verbatim>\<open>float()\<close> rejects, that has no \<^verbatim>\<open>dq\<close> in any letter case,
  and whose colon-separated fields do not begin with a decimal integer followed by a
  decimal float (there is no colon, or the text before the first colon is no integer, or
  the text between the first colon and the next colon or the end is no float) makes
  \<^verbatim>\<open>time_to_float\<close> raise ValueError or IndexError. Text after a second colon is not
  read, and is neither required nor refused.
\<close>

theorem C7_unmatched_input_raises:
  assumes "py_float t = Inl ValueError" "\<not> sublist ''dq'' (lower t)"
    "\<not> minutes_seconds_fields t"
  shows "time_to_float (Some t) = Inl ValueError \<or> time_to_float (Some t) = Inl IndexError"
proof (cases "split_on CHR '':'' t")
  case Nil
  then show ?thesis using split_on_not_Nil by blast
next
  case (Cons a rest)
  show ?thesis
  proof (cases "py_int a")
    case (Inl e)
    then have "e = ValueError" by (rule py_int_Inl)
    then show ?thesis using assms(1,2) Cons Inl
      by (simp add: time_to_float_def bind_e_def idx_def)
  next
    case (Inr m)
    show ?thesis
    proof (cases rest)
      case Nil
      then show ?thesis using assms(1,2) Cons Inr
        by (simp add: time_to_float_def bind_e_def idx_def)
    next
      case (Cons b rest')
      with assms(3) \<open>split_on CHR '':'' t = a # rest\<close> Inr
      obtain e where e: "py_float b = Inl e"
        by (cases "py_float b") (auto simp: minutes_seconds_fields_def)
      then have "e = ValueError" by (rule py_float_Inl)
      then show ?thesis using assms(1,2) \<open>split_on CHR '':'' t = a # rest\<close> Cons Inr e
        by (simp add: time_to_float_def bind_e_def idx_def)
    qed
  qed
qed

theorem C7_unmatched_input_raises_witness:
  "py_float ''1:abc'' = Inl ValueError
   \<and> \<not> sublist ''dq'' (lower ''1:abc'')
   \<and> \<not> minutes_seconds_fields ''1:abc''
   \<and> (time_to_float (Some ''1:abc'') = Inl ValueError
        \<or> time_to_float (Some ''1:abc'') = Inl IndexError)"
proof -
  have 1: "py_float ''1:abc'' = Inl ValueError"
    by code_simp
  have 2: "\<not> sublist ''dq'' (lower ''1:abc'')"
    by code_simp
  have 3: "\<not> minutes_seconds_fields ''1:abc''"
    by code_simp
  from C7_unmatched_input_raises[OF 1 2 3] 1 2 3 show ?thesis by blast
qed

section \<open>Properties of the swimmer profile parser\<close>








end
